theory Spec2Isabelle
  imports Complex_Main "HOL-Library.Word" "HOL-Library.Signed_Division"
begin

section \<open>Ray tracer: data model\<close>

text \<open>
  The renderer of \<^verbatim>\<open>raytracer_logic.cpp\<close> works on \<^verbatim>\<open>double\<close> values. They are
  idealised here as real numbers: comparisons are those of a linear order (no NaN) and
  arithmetic is exact.

  Modelled from the spec: \<^verbatim>\<open>vector.h\<close> is not part of the sources. A \<^verbatim>\<open>Vector\<close> has
  three components read by \<^verbatim>\<open>v[0]\<close>, \<^verbatim>\<open>v[1]\<close>, \<^verbatim>\<open>v[2]\<close>; \<^verbatim>\<open>Vector()\<close> is the zero
  vector (the background colour), and sum, difference, negation, scaling by a number and
  the product of two colours act on each component.
\<close>

datatype Vector = Vector (idx0: real) (idx1: real) (idx2: real)

instantiation Vector :: real_vector
begin

definition zero_Vector :: Vector where
  "zero_Vector = Vector 0 0 0"

definition plus_Vector :: "Vector \<Rightarrow> Vector \<Rightarrow> Vector" where
  "plus_Vector a b = Vector (idx0 a + idx0 b) (idx1 a + idx1 b) (idx2 a + idx2 b)"

definition minus_Vector :: "Vector \<Rightarrow> Vector \<Rightarrow> Vector" where
  "minus_Vector a b = Vector (idx0 a - idx0 b) (idx1 a - idx1 b) (idx2 a - idx2 b)"

definition uminus_Vector :: "Vector \<Rightarrow> Vector" where
  "uminus_Vector a = Vector (- idx0 a) (- idx1 a) (- idx2 a)"

definition scaleR_Vector :: "real \<Rightarrow> Vector \<Rightarrow> Vector" where
  "scaleR_Vector k a = Vector (k * idx0 a) (k * idx1 a) (k * idx2 a)"

instance
  by standard
    (simp_all add: zero_Vector_def plus_Vector_def minus_Vector_def uminus_Vector_def
      scaleR_Vector_def algebra_simps)

end

instantiation Vector :: times
begin

definition times_Vector :: "Vector \<Rightarrow> Vector \<Rightarrow> Vector" where
  "times_Vector a b = Vector (idx0 a * idx0 b) (idx1 a * idx1 b) (idx2 a * idx2 b)"

instance ..

end

text \<open>
  Modelled from the spec: \<^verbatim>\<open>ray.h\<close>, \<^verbatim>\<open>intersection.h\<close> and \<^verbatim>\<open>scene.h\<close> are not part of
  the sources either. A ray is an origin and a direction; an intersection carries the
  distance along the ray, the hit position and the surface normal; a material carries the
  colours, the specular exponent, the refraction index and the three albedo weights; a
  primitive wraps a shape (\<^verbatim>\<open>GetObject()\<close>) and its material; a scene holds the
  triangle-like primitives, the sphere-like primitives and the point lights. The fields of
  a light are prefixed, since a material has an \<^verbatim>\<open>intensity\<close> as well.
\<close>

record Ray =
  GetOrigin :: Vector
  GetDirection :: Vector

record Intersection =
  GetDistance :: real
  GetPosition :: Vector
  GetNormal :: Vector

record Material =
  ambient_color :: Vector
  intensity :: Vector
  diffuse_color :: Vector
  specular_color :: Vector
  specular_exponent :: real
  refraction_index :: real
  albedo :: Vector

record 'g Object =
  GetObject :: 'g
  material :: Material

record Light =
  light_position :: Vector
  light_intensity :: Vector

record ('t, 's) Scene =
  GetObjects :: "'t Object list"
  GetSphereObjects :: "'s Object list"
  GetLights :: "Light list"

text \<open>
  Modelled from the spec: \<^verbatim>\<open>render_options.h\<close> is not part of the sources. The render
  mode is depth visualisation, normal visualisation or the final shaded image; the code
  names the first two and treats every other mode as shaded. The recursion budget
  \<^verbatim>\<open>opt.depth\<close> is a signed 32-bit counter that the code compares with \<^verbatim>\<open>0\<close>
  and decrements. It is modelled by its integer value, between \<open>INT_MIN\<close> and
  \<open>INT_MAX\<close>. Decrementing \<open>INT_MIN\<close> overflows, which is undefined: the model
  lets the decrement of line 79 give \<open>INT_MIN - 1\<close>, a value that no
  \<^verbatim>\<open>int\<close> holds, and the run stops in that error as soon as \<^verbatim>\<open>RayCast\<close> tests such
  a counter.
\<close>

datatype RenderMode = kDepth | kNormal | kFull

definition INT_MIN :: int where
  "INT_MIN = - (2 ^ 31)"

record RenderOptions =
  depth :: int
  mode :: RenderMode

text \<open>
  The geometry substrate (\<^verbatim>\<open>geometry.h\<close> and the methods of the shape classes) is outside
  the sources; the renderer is parameterised over it. \<^verbatim>\<open>DefaultIntersection\<close> is the
  value of a default-constructed \<^verbatim>\<open>Intersection\<close>.
\<close>

record ('t, 's) Geometry =
  Normalize :: "Vector \<Rightarrow> Vector"
  Length :: "Vector \<Rightarrow> real"
  DotProduct :: "Vector \<Rightarrow> Vector \<Rightarrow> real"
  Reflect :: "Vector \<Rightarrow> Vector \<Rightarrow> Vector"
  Refract :: "Vector \<Rightarrow> Vector \<Rightarrow> real \<Rightarrow> Vector option"
  std_pow :: "real \<Rightarrow> real \<Rightarrow> real"
  GetIntersectionT :: "Ray \<Rightarrow> 't \<Rightarrow> Intersection option"
  GetIntersectionS :: "Ray \<Rightarrow> 's \<Rightarrow> Intersection option"
  IsInsideT :: "'t Object \<Rightarrow> Vector \<Rightarrow> Vector \<Rightarrow> bool"
  IsInsideS :: "'s Object \<Rightarrow> Vector \<Rightarrow> Vector \<Rightarrow> bool"
  DefineNormal :: "'t Object \<Rightarrow> Intersection \<Rightarrow> Intersection"
  DefaultIntersection :: Intersection

section \<open>Nearest-intersection search\<close>

text \<open>
  One iteration of the loop of \<^verbatim>\<open>FindNearestIntersection\<close>: the state is the pair of
  \<^verbatim>\<open>target_object\<close> (the null pointer is \<open>None\<close>) and \<^verbatim>\<open>best_intersection\<close>.
\<close>

definition FindNearestIntersection_step ::
  "(Ray \<Rightarrow> 'g \<Rightarrow> Intersection option) \<Rightarrow> Ray \<Rightarrow> bool \<Rightarrow>
    'g Object option \<times> Intersection \<Rightarrow> 'g Object \<Rightarrow> 'g Object option \<times> Intersection" where
  "FindNearestIntersection_step gi ray flag st obj =
     (case gi ray (GetObject obj) of
        None \<Rightarrow> st
      | Some intersection \<Rightarrow>
          if (\<not> flag \<and> fst st = None) \<or> GetDistance intersection < GetDistance (snd st)
          then (Some obj, intersection)
          else st)"

definition FindNearestIntersection ::
  "(Ray \<Rightarrow> 'g \<Rightarrow> Intersection option) \<Rightarrow> 'g Object list \<Rightarrow> Ray \<Rightarrow> Intersection \<Rightarrow> bool \<Rightarrow>
    'g Object option \<times> Intersection" where
  "FindNearestIntersection gi objects ray best_intersection flag =
     foldl (FindNearestIntersection_step gi ray flag) (None, best_intersection) objects"

text \<open>
  The two searches that \<^verbatim>\<open>IsInShadow\<close> and \<^verbatim>\<open>RayCast\<close> both run: the triangle-like
  primitives with the flag false, then the sphere-like ones with the flag telling whether
  a triangle was found. The result is the triangle pointer, the sphere pointer and the
  shared best intersection.
\<close>

definition FindVisible ::
  "('t, 's) Geometry \<Rightarrow> ('t, 's) Scene \<Rightarrow> Ray \<Rightarrow>
    't Object option \<times> 's Object option \<times> Intersection" where
  "FindVisible G scene ray =
     (let best_intersection = DefaultIntersection G;
          triangle_f = False;
          (triangle, best_intersection) =
             FindNearestIntersection (GetIntersectionT G) (GetObjects scene) ray
               best_intersection triangle_f;
          triangle_f = (triangle \<noteq> None);
          (sphere, best_intersection) =
             FindNearestIntersection (GetIntersectionS G) (GetSphereObjects scene) ray
               best_intersection triangle_f
      in (triangle, sphere, best_intersection))"

section \<open>Shadow tester\<close>

definition IsInShadow :: "('t, 's) Geometry \<Rightarrow> ('t, 's) Scene \<Rightarrow> Light \<Rightarrow> Vector \<Rightarrow> bool" where
  "IsInShadow G scene light pos =
     (let light_vector = Normalize G (pos - light_position light);
          light_ray = \<lparr>GetOrigin = light_position light, GetDirection = light_vector\<rparr>;
          (triangle, sphere, best_intersection) = FindVisible G scene light_ray
      in Length G (pos - GetPosition best_intersection) > 1 / 1000000)"

section \<open>Shading evaluator and ray-cast driver\<close>

text \<open>
  \<^verbatim>\<open>GetColor\<close> and \<^verbatim>\<open>RayCast\<close> call each other. A run either does not return
  (\<open>None\<close>), or stops in undefined behaviour (\<open>Some (Inl e)\<close>), or writes a colour into
  \<^verbatim>\<open>result\<close> (\<open>Some (Inr c)\<close>). The undefined behaviour modelled is the access to an
  empty \<^verbatim>\<open>std::optional\<close> and the overflow of the depth counter. The call stack is
  not modelled.
\<close>

datatype error = EmptyOptionalAccess | SignedOverflow

type_synonym outcome = "(error + Vector) option"

definition bind_outcome :: "outcome \<Rightarrow> (Vector \<Rightarrow> outcome) \<Rightarrow> outcome" where
  "bind_outcome m k = Option.bind m (\<lambda>r. case r of Inl e \<Rightarrow> Some (Inl e) | Inr v \<Rightarrow> k v)"

text \<open>
  The body of the loop over the lights (lines 61 to 77): the state is the pair of the
  accumulators \<^verbatim>\<open>diffusion\<close> and \<^verbatim>\<open>specular\<close>.
\<close>

definition GetColor_light ::
  "('t, 's) Geometry \<Rightarrow> ('t, 's) Scene \<Rightarrow> Ray \<Rightarrow> Intersection \<Rightarrow> 'g Object \<Rightarrow>
    Vector \<times> Vector \<Rightarrow> Light \<Rightarrow> Vector \<times> Vector" where
  "GetColor_light G scene view_ray vis_intersection vis_obj acc light =
     (let light_vector = Normalize G (GetPosition vis_intersection - light_position light);
          light_ray = \<lparr>GetOrigin = light_position light, GetDirection = light_vector\<rparr>
      in if IsInShadow G scene light (GetPosition vis_intersection) then acc
         else
           let l_d = max 0 (DotProduct G (- GetDirection light_ray) (GetNormal vis_intersection));
               l_s = std_pow G
                       (max 0 (DotProduct G (- GetDirection view_ray)
                          (Reflect G (GetDirection light_ray) (GetNormal vis_intersection))))
                       (specular_exponent (material vis_obj))
           in (fst acc + (l_d *\<^sub>R light_intensity light) * diffuse_color (material vis_obj),
               snd acc + (l_s *\<^sub>R light_intensity light) * specular_color (material vis_obj)))"

text \<open>
  The refraction block (lines 81 to 93), given the recursive call \<open>rc\<close>, the options
  after the decrement and the flag \<^verbatim>\<open>inside\<close>; its value is the final \<^verbatim>\<open>refracted\<close>.
  Line 85 calls \<^verbatim>\<open>refracted_ray->Normalize()\<close> before line 86 tests the optional: on an
  empty optional that access is the error. The ratio \<^verbatim>\<open>eta\<close> is only handed to
  \<^verbatim>\<open>Refract\<close>.
\<close>

definition GetColor_refraction ::
  "(Ray \<Rightarrow> RenderOptions \<Rightarrow> outcome) \<Rightarrow> ('t, 's) Geometry \<Rightarrow> Ray \<Rightarrow> RenderOptions \<Rightarrow>
    Intersection \<Rightarrow> 'g Object \<Rightarrow> bool \<Rightarrow> outcome" where
  "GetColor_refraction rc G view_ray opt vis_intersection vis_obj inside =
     (if idx2 (albedo (material vis_obj)) > 0 then
        let eta = 1 / refraction_index (material vis_obj);
            refracted_ray = Refract G (GetDirection view_ray) (GetNormal vis_intersection) eta
        in case refracted_ray of
             None \<Rightarrow> Some (Inl EmptyOptionalAccess)
           | Some r \<Rightarrow>
               let refracted_ray = Normalize G r;
                   origin = GetPosition vis_intersection + (1 / 100000) *\<^sub>R refracted_ray
               in bind_outcome (rc \<lparr>GetOrigin = origin, GetDirection = refracted_ray\<rparr> opt)
                    (\<lambda>refracted.
                       Some (Inr (if \<not> inside
                                  then idx2 (albedo (material vis_obj)) *\<^sub>R refracted
                                  else refracted)))
      else Some (Inr 0))"

text \<open>The reflection block (lines 95 to 100); its value is the final \<^verbatim>\<open>reflected\<close>.\<close>

definition GetColor_reflection ::
  "(Ray \<Rightarrow> RenderOptions \<Rightarrow> outcome) \<Rightarrow> ('t, 's) Geometry \<Rightarrow> Ray \<Rightarrow> RenderOptions \<Rightarrow>
    Intersection \<Rightarrow> 'g Object \<Rightarrow> bool \<Rightarrow> outcome" where
  "GetColor_reflection rc G view_ray opt vis_intersection vis_obj inside =
     (if idx1 (albedo (material vis_obj)) > 0 \<and> \<not> inside then
        let origin = GetPosition vis_intersection + (1 / 100000) *\<^sub>R GetNormal vis_intersection;
            reflected_ray =
              Normalize G (Reflect G (GetDirection view_ray) (GetNormal vis_intersection))
        in rc \<lparr>GetOrigin = origin, GetDirection = reflected_ray\<rparr> opt
      else Some (Inr 0))"

text \<open>
  \<^verbatim>\<open>GetColor\<close> is a template over the primitive type; \<open>is_inside\<close> is the method
  \<^verbatim>\<open>IsInside\<close> of that type and \<open>rc\<close> stands for \<^verbatim>\<open>RayCast\<close> on the same scene.
\<close>

definition GetColor ::
  "(Ray \<Rightarrow> RenderOptions \<Rightarrow> outcome) \<Rightarrow> ('t, 's) Geometry \<Rightarrow> ('t, 's) Scene \<Rightarrow> Ray \<Rightarrow>
    RenderOptions \<Rightarrow> Intersection \<Rightarrow> 'g Object \<Rightarrow> ('g Object \<Rightarrow> Vector \<Rightarrow> Vector \<Rightarrow> bool) \<Rightarrow>
    outcome" where
  "GetColor rc G scene view_ray opt vis_intersection vis_obj is_inside =
     (if mode opt = kDepth then
        let d = GetDistance vis_intersection in Some (Inr (Vector d d d))
      else if mode opt = kNormal then
        let norm = GetNormal vis_intersection
        in Some (Inr (Vector (idx0 norm) (idx1 norm) (idx2 norm)))
      else
        let general = intensity (material vis_obj) + ambient_color (material vis_obj);
            (diffusion, specular) =
               foldl (GetColor_light G scene view_ray vis_intersection vis_obj) (0, 0)
                 (GetLights scene);
            opt = opt\<lparr>depth := depth opt - 1\<rparr>;
            inside = is_inside vis_obj (GetDirection view_ray) (GetNormal vis_intersection)
        in bind_outcome (GetColor_refraction rc G view_ray opt vis_intersection vis_obj inside)
             (\<lambda>refracted.
                bind_outcome
                  (GetColor_reflection rc G view_ray opt vis_intersection vis_obj inside)
                  (\<lambda>reflected.
                     Some (Inr (general
                       + idx0 (albedo (material vis_obj)) *\<^sub>R (diffusion + specular)
                       + idx1 (albedo (material vis_obj)) *\<^sub>R reflected
                       + refracted)))))"

lemma bind_outcome_mono [partial_function_mono]:
  assumes "mono_option B" and "\<And>y. mono_option (\<lambda>f. C y f)"
  shows "mono_option (\<lambda>f. bind_outcome (B f) (\<lambda>y. C y f))"
proof -
  have "mono_option (\<lambda>f. case r of Inl e \<Rightarrow> Some (Inl e) | Inr v \<Rightarrow> C v f)" for r
    by (cases r) (simp_all add: assms(2) option.const_mono)
  then show ?thesis
    unfolding bind_outcome_def by (intro bind_mono assms(1))
qed

lemma GetColor_refraction_mono [partial_function_mono]:
  assumes "\<And>r ro. mono_option (\<lambda>f. rc f r ro)"
  shows "mono_option (\<lambda>f. GetColor_refraction (rc f) G view_ray opt vis_intersection vis_obj inside)"
  unfolding GetColor_refraction_def Let_def
  by (cases "Refract G (GetDirection view_ray) (GetNormal vis_intersection)
               (1 / refraction_index (material vis_obj))")
    (auto intro!: partial_function_mono assms)

lemma GetColor_reflection_mono [partial_function_mono]:
  assumes "\<And>r ro. mono_option (\<lambda>f. rc f r ro)"
  shows "mono_option (\<lambda>f. GetColor_reflection (rc f) G view_ray opt vis_intersection vis_obj inside)"
  unfolding GetColor_reflection_def Let_def
  by (auto intro!: partial_function_mono assms)

lemma GetColor_mono [partial_function_mono]:
  assumes "\<And>r ro. mono_option (\<lambda>f. rc f r ro)"
  shows "mono_option
    (\<lambda>f. GetColor (rc f) G scene view_ray opt vis_intersection vis_obj is_inside)"
  unfolding GetColor_def Let_def case_prod_beta
  by (intro partial_function_mono assms)

text \<open>
  \<^verbatim>\<open>RayCast\<close> (lines 106 to 131). The first branch is not in the source: it is where
  the overflow of the decrement of line 79 surfaces, at the test of line 107.
\<close>

partial_function (option) RayCast ::
  "('t, 's) Geometry \<Rightarrow> ('t, 's) Scene \<Rightarrow> Ray \<Rightarrow> RenderOptions \<Rightarrow> outcome" where
  "RayCast G scene view_ray opt =
     (if depth opt < INT_MIN then Some (Inl SignedOverflow)
      else if depth opt = 0 then Some (Inr 0)
      else
        let (triangle, sphere, best_intersection) = FindVisible G scene view_ray
        in case sphere of
             Some s \<Rightarrow>
               GetColor (RayCast G scene) G scene view_ray opt best_intersection s (IsInsideS G)
           | None \<Rightarrow>
               (case triangle of
                  Some t \<Rightarrow>
                    GetColor (RayCast G scene) G scene view_ray opt
                      (DefineNormal G t best_intersection) t (IsInsideT G)
                | None \<Rightarrow> Some (Inr 0)))"

text \<open>
  The valid intersections of a ray with the primitives of both collections, in the order
  in which the two searches meet them.
\<close>

definition valid_intersections ::
  "('t, 's) Geometry \<Rightarrow> ('t, 's) Scene \<Rightarrow> Ray \<Rightarrow> Intersection list" where
  "valid_intersections G scene ray =
     List.map_filter (\<lambda>obj. GetIntersectionT G ray (GetObject obj)) (GetObjects scene) @
     List.map_filter (\<lambda>obj. GetIntersectionS G ray (GetObject obj)) (GetSphereObjects scene)"

section \<open>Calculator: expression trees\<close>

text \<open>
  \<^verbatim>\<open>calculator.cpp\<close>: an \<^verbatim>\<open>Expression\<close> is a \<^verbatim>\<open>Const\<close> or an \<^verbatim>\<open>Operation\<close> with an
  operator character and two owned subexpressions. Values are \<^verbatim>\<open>int64_t\<close>: 64-bit words
  whose sum, difference and product wrap around, with the truncating signed quotient of
  C++. A division stops the run in two cases: the divisor is zero, or the quotient does
  not fit (\<open>INT64_MIN / -1\<close>, on which the machine division traps as well).
  \<^verbatim>\<open>Operation::Evaluate\<close> evaluates both operands once to print the result and once
  more to return it; printing apart, the two evaluations agree, and the model keeps the
  returned value only, the left operand first. An operator other than the four
  arithmetic ones falls to the \<^verbatim>\<open>default\<close> case, which returns 0 without evaluating the
  operands (the \<^verbatim>\<open>assert\<close> on a string literal never fires).
\<close>

datatype Expression = Const "64 word" | Operation char Expression Expression

datatype eval_error = DivisionByZero | DivisionOverflow

definition INT64_MIN :: "64 word" where
  "INT64_MIN = - (2 ^ 63)"

definition int64_div :: "64 word \<Rightarrow> 64 word \<Rightarrow> 64 word" where
  "int64_div a b = word_of_int (sint a sdiv sint b)"

fun Evaluate :: "Expression \<Rightarrow> eval_error + 64 word" where
  "Evaluate (Const val) = Inr val"
| "Evaluate (Operation op_type left right) =
     (if op_type = CHR ''*'' then
        (case Evaluate left of Inl e \<Rightarrow> Inl e | Inr l \<Rightarrow>
           (case Evaluate right of Inl e \<Rightarrow> Inl e | Inr r \<Rightarrow> Inr (l * r)))
      else if op_type = CHR ''/'' then
        (case Evaluate left of Inl e \<Rightarrow> Inl e | Inr l \<Rightarrow>
           (case Evaluate right of Inl e \<Rightarrow> Inl e | Inr r \<Rightarrow>
              if r = 0 then Inl DivisionByZero
              else if l = INT64_MIN \<and> r = - 1 then Inl DivisionOverflow
              else Inr (int64_div l r)))
      else if op_type = CHR ''+'' then
        (case Evaluate left of Inl e \<Rightarrow> Inl e | Inr l \<Rightarrow>
           (case Evaluate right of Inl e \<Rightarrow> Inl e | Inr r \<Rightarrow> Inr (l + r)))
      else if op_type = CHR ''-'' then
        (case Evaluate left of Inl e \<Rightarrow> Inl e | Inr l \<Rightarrow>
           (case Evaluate right of Inl e \<Rightarrow> Inl e | Inr r \<Rightarrow> Inr (l - r)))
      else Inr 0)"

text \<open>
  All nodes of a tree, and the trees built from the four operators only: the only
  operators that the parser creates, and the only ones that the \<^verbatim>\<open>assert\<close> of the
  \<^verbatim>\<open>default\<close> case means to admit.
\<close>

fun nodes :: "Expression \<Rightarrow> Expression list" where
  "nodes (Const val) = [Const val]"
| "nodes (Operation op_type left right) =
     Operation op_type left right # nodes left @ nodes right"

fun supported :: "Expression \<Rightarrow> bool" where
  "supported (Const val) = True"
| "supported (Operation op_type left right) =
     ((op_type = CHR ''*'' \<or> op_type = CHR ''/'' \<or> op_type = CHR ''+'' \<or> op_type = CHR ''-'')
      \<and> supported left \<and> supported right)"

text \<open>
  A node is a safe division when it is not a division at all, or its right operand
  evaluates to a value other than zero.
\<close>

fun safe_division :: "Expression \<Rightarrow> bool" where
  "safe_division (Const val) = True"
| "safe_division (Operation op_type left right) =
     (if op_type = CHR ''/''
      then (case Evaluate right of Inl e \<Rightarrow> False | Inr r \<Rightarrow> r \<noteq> 0)
      else True)"

section \<open>Example data\<close>

text \<open>
  A small substrate in which a shape is its own precomputed hit, so that concrete scenes
  can be evaluated: \<open>refr\<close> is what \<^verbatim>\<open>Refract\<close> answers and \<open>ins\<close> what \<^verbatim>\<open>IsInside\<close>
  answers.
\<close>

definition example_geometry ::
  "Vector option \<Rightarrow> bool \<Rightarrow> (Intersection option, Intersection option) Geometry" where
  "example_geometry refr ins =
     \<lparr>Normalize = (\<lambda>v. v),
      Length = (\<lambda>v. sqrt (idx0 v * idx0 v + idx1 v * idx1 v + idx2 v * idx2 v)),
      DotProduct = (\<lambda>a b. idx0 a * idx0 b + idx1 a * idx1 b + idx2 a * idx2 b),
      Reflect = (\<lambda>d n. d),
      Refract = (\<lambda>d n eta. refr),
      std_pow = (\<lambda>x y. x),
      GetIntersectionT = (\<lambda>ray g. g),
      GetIntersectionS = (\<lambda>ray g. g),
      IsInsideT = (\<lambda>obj d n. ins),
      IsInsideS = (\<lambda>obj d n. ins),
      DefineNormal = (\<lambda>obj i. i),
      DefaultIntersection = \<lparr>GetDistance = 0, GetPosition = 0, GetNormal = 0\<rparr>\<rparr>"

definition example_hit :: "real \<Rightarrow> Vector \<Rightarrow> Intersection" where
  "example_hit d p = \<lparr>GetDistance = d, GetPosition = p, GetNormal = Vector 0 0 1\<rparr>"

definition example_object :: "'g \<Rightarrow> Vector \<Rightarrow> 'g Object" where
  "example_object g a =
     \<lparr>GetObject = g,
      material = \<lparr>ambient_color = Vector 1 0 0, intensity = Vector 0 1 0,
        diffuse_color = Vector 1 1 1, specular_color = Vector 1 1 1,
        specular_exponent = 1, refraction_index = 2, albedo = a\<rparr>\<rparr>"

definition example_ray :: Ray where
  "example_ray = \<lparr>GetOrigin = Vector 0 0 0, GetDirection = Vector 1 0 0\<rparr>"

definition example_light :: Light where
  "example_light = \<lparr>light_position = Vector 0 0 0, light_intensity = Vector 1 1 1\<rparr>"

definition example_scene ::
  "Intersection option Object list \<Rightarrow> Intersection option Object list \<Rightarrow>
    (Intersection option, Intersection option) Scene" where
  "example_scene triangles spheres =
     \<lparr>GetObjects = triangles, GetSphereObjects = spheres, GetLights = [example_light]\<rparr>"

text \<open>A scene of one fully reflective sphere that every ray hits.\<close>

definition mirror_scene :: "(Intersection option, Intersection option) Scene" where
  "mirror_scene = example_scene [] [example_object (Some (example_hit 1 0)) (Vector 0 1 0)]"

text \<open>
  A scene of one sphere whose material weighs all three terms; with a substrate whose
  \<^verbatim>\<open>Refract\<close> answers a direction it refracts, with one that answers nothing it meets
  total internal reflection.
\<close>

definition glass_scene :: "(Intersection option, Intersection option) Scene" where
  "glass_scene = example_scene []
     [example_object (Some (example_hit 1 (Vector 0 0 (- 1)))) (Vector 1 (1 / 2) (1 / 4))]"

section \<open>Properties of the nearest-intersection search\<close>

lemma step_keeps_target:
  "fst st \<noteq> None \<Longrightarrow> fst (FindNearestIntersection_step gi ray flag st obj) \<noteq> None"
  by (auto simp: FindNearestIntersection_step_def split: option.splits)

lemma step_with_candidate:
  assumes "flag \<or> fst st \<noteq> None"
  shows "FindNearestIntersection_step gi ray flag st obj = st \<or>
         GetDistance (snd (FindNearestIntersection_step gi ray flag st obj)) < GetDistance (snd st)"
  using assms by (auto simp: FindNearestIntersection_step_def split: option.splits)

lemma step_bounds_hit:
  assumes "gi ray (GetObject obj) = Some i"
  shows "GetDistance (snd (FindNearestIntersection_step gi ray flag st obj)) \<le> GetDistance i"
  using assms by (auto simp: FindNearestIntersection_step_def)

lemma step_gives_candidate:
  assumes "gi ray (GetObject obj) = Some i"
  shows "flag \<or> fst (FindNearestIntersection_step gi ray flag st obj) \<noteq> None"
  using assms by (auto simp: FindNearestIntersection_step_def)

lemma step_changes_to_hit:
  assumes "FindNearestIntersection_step gi ray flag st obj \<noteq> st"
  shows "\<exists>i. gi ray (GetObject obj) = Some i \<and>
             FindNearestIntersection_step gi ray flag st obj = (Some obj, i)"
  using assms by (auto simp: FindNearestIntersection_step_def split: option.splits if_splits)

lemma scan_keeps_target:
  "fst st \<noteq> None \<Longrightarrow> fst (foldl (FindNearestIntersection_step gi ray flag) st objs) \<noteq> None"
proof (induction objs arbitrary: st)
  case Nil
  then show ?case by simp
next
  case (Cons a objs)
  have "fst (FindNearestIntersection_step gi ray flag st a) \<noteq> None"
    using Cons.prems by (rule step_keeps_target)
  then have "fst (foldl (FindNearestIntersection_step gi ray flag)
      (FindNearestIntersection_step gi ray flag st a) objs) \<noteq> None"
    by (rule Cons.IH)
  then show ?case by simp
qed

lemma scan_with_candidate:
  assumes "flag \<or> fst st \<noteq> None"
  shows "foldl (FindNearestIntersection_step gi ray flag) st objs = st \<or>
         GetDistance (snd (foldl (FindNearestIntersection_step gi ray flag) st objs))
           < GetDistance (snd st)"
  using assms
proof (induction objs arbitrary: st)
  case Nil
  then show ?case by simp
next
  case (Cons a objs)
  let ?st = "FindNearestIntersection_step gi ray flag st a"
  have c: "flag \<or> fst ?st \<noteq> None"
    using Cons.prems step_keeps_target [of st gi ray flag a] by blast
  from Cons.IH [OF c] step_with_candidate [OF Cons.prems, of gi ray a]
  show ?case by auto
qed

lemma scan_le:
  assumes "flag \<or> fst st \<noteq> None"
  shows "GetDistance (snd (foldl (FindNearestIntersection_step gi ray flag) st objs))
           \<le> GetDistance (snd st)"
  using scan_with_candidate [OF assms, of gi ray objs] by auto

lemma scan_bounds_hits:
  assumes "obj \<in> set objs" and "gi ray (GetObject obj) = Some i"
  shows "GetDistance (snd (foldl (FindNearestIntersection_step gi ray flag) st objs))
           \<le> GetDistance i"
  using assms(1)
proof (induction objs arbitrary: st)
  case Nil
  then show ?case by simp
next
  case (Cons a objs)
  show ?case
  proof (cases "obj \<in> set objs")
    case True
    then show ?thesis using Cons.IH by simp
  next
    case False
    with Cons.prems have a: "a = obj" by simp
    let ?st = "FindNearestIntersection_step gi ray flag st obj"
    have "flag \<or> fst ?st \<noteq> None"
      using assms(2) by (rule step_gives_candidate)
    then have "GetDistance (snd (foldl (FindNearestIntersection_step gi ray flag) ?st objs))
          \<le> GetDistance (snd ?st)"
      by (rule scan_le)
    also have "\<dots> \<le> GetDistance i"
      using assms(2) by (rule step_bounds_hit)
    finally show ?thesis using a by simp
  qed
qed

lemma scan_finds_hit:
  assumes "obj \<in> set objs" and "gi ray (GetObject obj) = Some i"
  shows "fst (foldl (FindNearestIntersection_step gi ray False) st objs) \<noteq> None"
  using assms(1)
proof (induction objs arbitrary: st)
  case Nil
  then show ?case by simp
next
  case (Cons a objs)
  show ?case
  proof (cases "obj \<in> set objs")
    case True
    then show ?thesis using Cons.IH by simp
  next
    case False
    with Cons.prems have a: "a = obj" by simp
    have "fst (FindNearestIntersection_step gi ray False st obj) \<noteq> None"
      using step_gives_candidate [of gi ray obj i False st] assms(2) by simp
    then show ?thesis using a by (simp add: scan_keeps_target)
  qed
qed

lemma scan_no_winner:
  assumes "fst (foldl (FindNearestIntersection_step gi ray flag) st objs) = None"
  shows "foldl (FindNearestIntersection_step gi ray flag) st objs = st"
  using assms
proof (induction objs arbitrary: st)
  case Nil
  then show ?case by simp
next
  case (Cons a objs)
  let ?st = "FindNearestIntersection_step gi ray flag st a"
  have "?st = st"
  proof (rule ccontr)
    assume "?st \<noteq> st"
    then have "fst ?st \<noteq> None"
      using step_changes_to_hit [of gi ray flag st a] by auto
    then have "fst (foldl (FindNearestIntersection_step gi ray flag) ?st objs) \<noteq> None"
      by (rule scan_keeps_target)
    with Cons.prems show False by simp
  qed
  with Cons show ?case by simp
qed

lemma scan_winner_is_hit:
  assumes "\<forall>obj. fst st = Some obj \<longrightarrow> obj \<in> A \<and> gi ray (GetObject obj) = Some (snd st)"
      and "set objs \<subseteq> A"
      and "fst (foldl (FindNearestIntersection_step gi ray flag) st objs) = Some w"
  shows "w \<in> A \<and> gi ray (GetObject w)
           = Some (snd (foldl (FindNearestIntersection_step gi ray flag) st objs))"
  using assms
proof (induction objs arbitrary: st)
  case Nil
  then show ?case by simp
next
  case (Cons a objs)
  let ?st = "FindNearestIntersection_step gi ray flag st a"
  have "\<forall>obj. fst ?st = Some obj \<longrightarrow> obj \<in> A \<and> gi ray (GetObject obj) = Some (snd ?st)"
  proof (cases "?st = st")
    case True
    then show ?thesis using Cons.prems(1) by simp
  next
    case False
    then obtain i where "gi ray (GetObject a) = Some i" "?st = (Some a, i)"
      using step_changes_to_hit [of gi ray flag st a] by auto
    then show ?thesis using Cons.prems(2) by simp
  qed
  from Cons.IH [OF this] Cons.prems show ?case by simp
qed

text \<open>
  Claim C2. For two collections searched in sequence over the same ray and the same
  best-so-far intersection, the first with the flag false and the second with the flag
  telling whether the first search found a winner, the final best intersection is at a
  distance less than or equal to that of every valid intersection of the ray with a
  primitive of either collection; and once a prior candidate exists (the flag is set or
  a target has been chosen) an iteration either leaves the state alone or replaces the
  best intersection by one at a strictly smaller distance. In particular the second
  search, when the first had a winner, keeps its best intersection or strictly improves
  on it.
\<close>

theorem FindNearestIntersection_sequence_minimum:
  assumes first: "FindNearestIntersection gi1 objs1 ray best0 False = (target1, best1)"
      and second: "FindNearestIntersection gi2 objs2 ray best1 (target1 \<noteq> None) = (target2, best2)"
  shows "(\<forall>obj\<in>set objs1. \<forall>i. gi1 ray (GetObject obj) = Some i \<longrightarrow>
            GetDistance best2 \<le> GetDistance i) \<and>
         (\<forall>obj\<in>set objs2. \<forall>i. gi2 ray (GetObject obj) = Some i \<longrightarrow>
            GetDistance best2 \<le> GetDistance i) \<and>
         (target1 \<noteq> None \<longrightarrow>
            (target2 = None \<longrightarrow> best2 = best1) \<and>
            (target2 \<noteq> None \<longrightarrow> GetDistance best2 < GetDistance best1)) \<and>
         (\<forall>flag st obj. flag \<or> fst st \<noteq> None \<longrightarrow>
            FindNearestIntersection_step gi2 ray flag st obj = st \<or>
            GetDistance (snd (FindNearestIntersection_step gi2 ray flag st obj))
              < GetDistance (snd st))"
proof (intro conjI ballI allI impI)
  fix obj i
  assume hit: "obj \<in> set objs1" "gi1 ray (GetObject obj) = Some i"
  have "target1 \<noteq> None"
    using hit first
      scan_finds_hit [where gi = gi1 and ray = ray and obj = obj and objs = objs1
        and i = i and st = "(None, best0)"]
    by (simp add: FindNearestIntersection_def)
  then have "GetDistance best2 \<le> GetDistance best1"
    using scan_le [of "target1 \<noteq> None" "(None, best1)" gi2 ray objs2] second
    by (simp add: FindNearestIntersection_def)
  also have "GetDistance best1 \<le> GetDistance i"
    using hit first
      scan_bounds_hits [where gi = gi1 and ray = ray and obj = obj and objs = objs1
        and i = i and st = "(None, best0)" and flag = False]
    by (simp add: FindNearestIntersection_def)
  finally show "GetDistance best2 \<le> GetDistance i" .
next
  fix obj i
  assume hit: "obj \<in> set objs2" "gi2 ray (GetObject obj) = Some i"
  show "GetDistance best2 \<le> GetDistance i"
    using hit second
      scan_bounds_hits [where gi = gi2 and ray = ray and obj = obj and objs = objs2
        and i = i and st = "(None, best1)" and flag = "target1 \<noteq> None"]
    by (simp add: FindNearestIntersection_def)
next
  assume "target1 \<noteq> None" "target2 = None"
  then show "best2 = best1"
    using scan_no_winner [of gi2 ray "target1 \<noteq> None" "(None, best1)" objs2] second
    by (simp add: FindNearestIntersection_def)
next
  assume "target1 \<noteq> None" "target2 \<noteq> None"
  then show "GetDistance best2 < GetDistance best1"
    using scan_with_candidate [of "target1 \<noteq> None" "(None, best1)" gi2 ray objs2] second
    by (auto simp: FindNearestIntersection_def)
next
  fix flag :: bool and st :: "'b Object option \<times> Intersection" and obj
  assume "flag \<or> fst st \<noteq> None"
  then show "FindNearestIntersection_step gi2 ray flag st obj = st \<or>
            GetDistance (snd (FindNearestIntersection_step gi2 ray flag st obj))
              < GetDistance (snd st)"
    by (rule step_with_candidate)
qed


theorem FindNearestIntersection_sequence_minimum_witness:
  "FindNearestIntersection (\<lambda>ray g. g)
      [example_object (Some (example_hit 5 0)) 0, example_object None 0]
      example_ray (example_hit 1 0) False
     = (Some (example_object (Some (example_hit 5 0)) 0), example_hit 5 0) \<and>
   FindNearestIntersection (\<lambda>ray g. g)
      [example_object (Some (example_hit 7 0)) 0, example_object (Some (example_hit 3 0)) 0]
      example_ray (example_hit 5 0) True
     = (Some (example_object (Some (example_hit 3 0)) 0), example_hit 3 0) \<and>
   GetDistance (example_hit 3 0) \<le> GetDistance (example_hit 5 0) \<and>
   GetDistance (example_hit 3 0) \<le> GetDistance (example_hit 7 0) \<and>
   GetDistance (example_hit 3 0) < GetDistance (example_hit 5 0)"
proof -
  let ?t1 = "Some (example_object (Some (example_hit 5 0)) (0::Vector))"
  have first: "FindNearestIntersection (\<lambda>ray g. g)
      [example_object (Some (example_hit 5 0)) 0, example_object None 0]
      example_ray (example_hit 1 0) False = (?t1, example_hit 5 0)"
    by (simp add: FindNearestIntersection_def FindNearestIntersection_step_def
        example_object_def example_hit_def)
  have second: "FindNearestIntersection (\<lambda>ray g. g)
      [example_object (Some (example_hit 7 0)) 0, example_object (Some (example_hit 3 0)) 0]
      example_ray (example_hit 5 0) (?t1 \<noteq> None)
     = (Some (example_object (Some (example_hit 3 0)) 0), example_hit 3 0)"
    by (simp add: FindNearestIntersection_def FindNearestIntersection_step_def
        example_object_def example_hit_def)
  from FindNearestIntersection_sequence_minimum [OF first second] first second
  show ?thesis
    by (simp add: example_object_def)
qed

lemma map_filter_hit:
  "i \<in> set (List.map_filter f xs) \<longleftrightarrow> (\<exists>x\<in>set xs. f x = Some i)"
  by (induction xs) (auto simp: List.map_filter_simps split: option.splits)

lemma valid_intersections_iff:
  "i \<in> set (valid_intersections G scene ray) \<longleftrightarrow>
     (\<exists>obj\<in>set (GetObjects scene). GetIntersectionT G ray (GetObject obj) = Some i) \<or>
     (\<exists>obj\<in>set (GetSphereObjects scene). GetIntersectionS G ray (GetObject obj) = Some i)"
  by (auto simp: valid_intersections_def map_filter_hit)

lemma FindVisible_unfold:
  "FindVisible G scene ray =
     (fst (FindNearestIntersection (GetIntersectionT G) (GetObjects scene) ray
             (DefaultIntersection G) False),
      FindNearestIntersection (GetIntersectionS G) (GetSphereObjects scene) ray
        (snd (FindNearestIntersection (GetIntersectionT G) (GetObjects scene) ray
                (DefaultIntersection G) False))
        (fst (FindNearestIntersection (GetIntersectionT G) (GetObjects scene) ray
                (DefaultIntersection G) False) \<noteq> None))"
  by (simp add: FindVisible_def Let_def case_prod_beta)

lemma FindVisible_minimum:
  assumes "FindVisible G scene ray = (triangle, sphere, best)"
      and "i \<in> set (valid_intersections G scene ray)"
  shows "GetDistance best \<le> GetDistance i"
proof -
  let ?first = "FindNearestIntersection (GetIntersectionT G) (GetObjects scene) ray
                  (DefaultIntersection G) False"
  let ?second = "FindNearestIntersection (GetIntersectionS G) (GetSphereObjects scene) ray
                  (snd ?first) (fst ?first \<noteq> None)"
  have tri: "triangle = fst ?first" and sec: "?second = (sphere, best)"
    using assms(1) by (auto simp add: FindVisible_unfold)
  from assms(2) consider
      obj where "obj \<in> set (GetObjects scene)" "GetIntersectionT G ray (GetObject obj) = Some i"
    | obj where "obj \<in> set (GetSphereObjects scene)"
        "GetIntersectionS G ray (GetObject obj) = Some i"
    by (auto simp: valid_intersections_iff)
  then show ?thesis
  proof cases
    case 1
    have found: "fst ?first \<noteq> None"
      using 1 scan_finds_hit [where gi = "GetIntersectionT G" and ray = ray and obj = obj
          and objs = "GetObjects scene" and i = i and st = "(None, DefaultIntersection G)"]
      by (simp add: FindNearestIntersection_def)
    have "GetDistance (snd ?second) \<le> GetDistance (snd ?first)"
      using found scan_le [of "fst ?first \<noteq> None" "(None, snd ?first)" "GetIntersectionS G" ray
          "GetSphereObjects scene"]
      by (simp add: FindNearestIntersection_def)
    also have "GetDistance (snd ?first) \<le> GetDistance i"
      using 1 scan_bounds_hits [where gi = "GetIntersectionT G" and ray = ray and obj = obj
          and objs = "GetObjects scene" and i = i and st = "(None, DefaultIntersection G)"
          and flag = False]
      by (simp add: FindNearestIntersection_def)
    finally show ?thesis using sec by simp
  next
    case 2
    have "GetDistance (snd ?second) \<le> GetDistance i"
      using 2 scan_bounds_hits [where gi = "GetIntersectionS G" and ray = ray and obj = obj
          and objs = "GetSphereObjects scene" and i = i and st = "(None, snd ?first)"
          and flag = "fst ?first \<noteq> None"]
      by (simp add: FindNearestIntersection_def)
    then show ?thesis using sec by simp
  qed
qed

lemma FindNearestIntersection_winner:
  assumes "FindNearestIntersection gi objs ray b flag = (Some w, best)"
  shows "w \<in> set objs \<and> gi ray (GetObject w) = Some best"
  using assms
    scan_winner_is_hit [where st = "(None, b)" and A = "set objs" and gi = gi and ray = ray
      and objs = objs and flag = flag and w = w]
  by (simp add: FindNearestIntersection_def)

lemma FindNearestIntersection_no_winner:
  assumes "FindNearestIntersection gi objs ray b flag = (None, best)"
  shows "best = b"
  using assms scan_no_winner [of gi ray flag "(None, b)" objs]
  by (simp add: FindNearestIntersection_def)

lemma FindNearestIntersection_all_miss:
  assumes "\<forall>obj\<in>set objs. gi ray (GetObject obj) = None"
  shows "FindNearestIntersection gi objs ray b flag = (None, b)"
proof -
  have "foldl (FindNearestIntersection_step gi ray flag) st objs = st" for st
    using assms by (induction objs arbitrary: st) (simp_all add: FindNearestIntersection_step_def)
  then show ?thesis by (simp add: FindNearestIntersection_def)
qed

lemma FindVisible_is_hit:
  assumes "FindVisible G scene ray = (triangle, sphere, best)"
      and "triangle \<noteq> None \<or> sphere \<noteq> None"
  shows "best \<in> set (valid_intersections G scene ray)"
proof -
  let ?first = "FindNearestIntersection (GetIntersectionT G) (GetObjects scene) ray
                  (DefaultIntersection G) False"
  let ?second = "FindNearestIntersection (GetIntersectionS G) (GetSphereObjects scene) ray
                  (snd ?first) (fst ?first \<noteq> None)"
  have tri: "?first = (triangle, snd ?first)" and sec: "?second = (sphere, best)"
    using assms(1) by (auto simp add: FindVisible_unfold)
  show ?thesis
  proof (cases sphere)
    case (Some s)
    with sec FindNearestIntersection_winner [of "GetIntersectionS G" "GetSphereObjects scene" ray
        "snd ?first" "fst ?first \<noteq> None" s best]
    show ?thesis by (auto simp: valid_intersections_iff)
  next
    case None
    with sec have "best = snd ?first"
      by (auto dest: FindNearestIntersection_no_winner)
    moreover from None assms(2) obtain t where "triangle = Some t" by auto
    ultimately show ?thesis
      using tri FindNearestIntersection_winner [of "GetIntersectionT G" "GetObjects scene" ray
          "DefaultIntersection G" False t "snd ?first"]
      by (auto simp: valid_intersections_iff)
  qed
qed

lemma FindVisible_finds:
  assumes "FindVisible G scene ray = (triangle, sphere, best)"
      and "valid_intersections G scene ray \<noteq> []"
  shows "triangle \<noteq> None \<or> sphere \<noteq> None"
proof (rule ccontr)
  assume "\<not> (triangle \<noteq> None \<or> sphere \<noteq> None)"
  then have none: "triangle = None" "sphere = None" by simp_all
  let ?first = "FindNearestIntersection (GetIntersectionT G) (GetObjects scene) ray
                  (DefaultIntersection G) False"
  have tri: "fst ?first = None"
    and sec: "fst (FindNearestIntersection (GetIntersectionS G) (GetSphereObjects scene) ray
                  (snd ?first) False) = None"
    using assms(1) none by (auto simp add: FindVisible_unfold)
  from assms(2) obtain i where "i \<in> set (valid_intersections G scene ray)"
    by (cases "valid_intersections G scene ray") auto
  then consider
      obj where "obj \<in> set (GetObjects scene)" "GetIntersectionT G ray (GetObject obj) = Some i"
    | obj where "obj \<in> set (GetSphereObjects scene)"
        "GetIntersectionS G ray (GetObject obj) = Some i"
    by (auto simp: valid_intersections_iff)
  then show False
  proof cases
    case 1
    then show False
      using tri scan_finds_hit [where gi = "GetIntersectionT G" and ray = ray and obj = obj
          and objs = "GetObjects scene" and i = i and st = "(None, DefaultIntersection G)"]
      by (simp add: FindNearestIntersection_def)
  next
    case 2
    then show False
      using sec scan_finds_hit [where gi = "GetIntersectionS G" and ray = ray and obj = obj
          and objs = "GetSphereObjects scene" and i = i and st = "(None, snd ?first)"]
      by (simp add: FindNearestIntersection_def)
  qed
qed

lemma FindVisible_all_miss:
  assumes "valid_intersections G scene ray = []"
  shows "FindVisible G scene ray = (None, None, DefaultIntersection G)"
proof -
  have "\<forall>obj\<in>set (GetObjects scene). GetIntersectionT G ray (GetObject obj) = None"
    and "\<forall>obj\<in>set (GetSphereObjects scene). GetIntersectionS G ray (GetObject obj) = None"
    using assms valid_intersections_iff [of _ G scene ray]
    by (metis empty_iff list.set(1) not_Some_eq)+
  then show ?thesis
    by (simp add: FindVisible_unfold FindNearestIntersection_all_miss)
qed

section \<open>Properties of the shadow tester\<close>

lemmas example_defs = example_geometry_def example_scene_def example_object_def example_hit_def
  example_light_def example_ray_def

lemma valid_example:
  "valid_intersections (example_geometry refr ins) (example_scene ts ss) ray
     = List.map_filter GetObject ts @ List.map_filter GetObject ss"
  by (simp add: valid_intersections_def example_geometry_def example_scene_def)

lemma IsInShadow_unfold:
  "IsInShadow G scene light pos =
     (1 / 1000000 < Length G (pos - GetPosition (snd (snd (FindVisible G scene
        \<lparr>GetOrigin = light_position light,
         GetDirection = Normalize G (pos - light_position light)\<rparr>)))))"
  by (simp add: IsInShadow_def Let_def case_prod_beta)

text \<open>
  Claim C7. When the light-to-point ray has a valid intersection (the queried point lies
  on a primitive), \<^verbatim>\<open>IsInShadow\<close> answers by a nearest valid hit of that ray: it
  reports shadow exactly when that hit lies farther than \<open>1e-6\<close> from the queried
  point. Hence, if every nearest hit is the queried point itself (within \<open>1e-6\<close>), so
  that nothing lies between the light and the point, the point is reported as not
  shadowed.
\<close>

theorem IsInShadow_nearest_hit:
  assumes "valid_intersections G scene
             \<lparr>GetOrigin = light_position light,
              GetDirection = Normalize G (pos - light_position light)\<rparr> \<noteq> []"
  shows "(\<exists>nearest\<in>set (valid_intersections G scene
             \<lparr>GetOrigin = light_position light,
              GetDirection = Normalize G (pos - light_position light)\<rparr>).
           (\<forall>i\<in>set (valid_intersections G scene
             \<lparr>GetOrigin = light_position light,
              GetDirection = Normalize G (pos - light_position light)\<rparr>).
              GetDistance nearest \<le> GetDistance i) \<and>
           IsInShadow G scene light pos
             = (1 / 1000000 < Length G (pos - GetPosition nearest))) \<and>
         ((\<forall>i\<in>set (valid_intersections G scene
             \<lparr>GetOrigin = light_position light,
              GetDirection = Normalize G (pos - light_position light)\<rparr>).
             (\<forall>j\<in>set (valid_intersections G scene
               \<lparr>GetOrigin = light_position light,
                GetDirection = Normalize G (pos - light_position light)\<rparr>).
                GetDistance i \<le> GetDistance j) \<longrightarrow>
             Length G (pos - GetPosition i) \<le> 1 / 1000000) \<longrightarrow>
          \<not> IsInShadow G scene light pos)"
proof -
  let ?ray = "\<lparr>GetOrigin = light_position light,
               GetDirection = Normalize G (pos - light_position light)\<rparr>"
  obtain triangle sphere best where fv: "FindVisible G scene ?ray = (triangle, sphere, best)"
    by (cases "FindVisible G scene ?ray") auto
  have hit: "best \<in> set (valid_intersections G scene ?ray)"
    using fv FindVisible_finds [OF fv assms] by (rule FindVisible_is_hit)
  have least: "\<forall>i\<in>set (valid_intersections G scene ?ray). GetDistance best \<le> GetDistance i"
    using fv by (auto intro: FindVisible_minimum)
  have shadow: "IsInShadow G scene light pos = (1 / 1000000 < Length G (pos - GetPosition best))"
    by (simp add: IsInShadow_unfold fv)
  from hit least shadow show ?thesis by (intro conjI bexI [of _ best] impI) auto
qed

theorem IsInShadow_nearest_hit_witness:
  "valid_intersections (example_geometry None False)
      (example_scene [example_object (Some (example_hit 2 (Vector 2 0 0))) 0]
                     [example_object (Some (example_hit 1 (Vector 1 0 0))) 0])
      \<lparr>GetOrigin = light_position example_light,
       GetDirection = Normalize (example_geometry None False)
         (Vector 1 0 0 - light_position example_light)\<rparr> \<noteq> [] \<and>
   \<not> IsInShadow (example_geometry None False)
      (example_scene [example_object (Some (example_hit 2 (Vector 2 0 0))) 0]
                     [example_object (Some (example_hit 1 (Vector 1 0 0))) 0])
      example_light (Vector 1 0 0)"
proof -
  let ?G = "example_geometry None False :: (Intersection option, Intersection option) Geometry"
  let ?scene = "example_scene [example_object (Some (example_hit 2 (Vector 2 0 0))) 0]
                     [example_object (Some (example_hit 1 (Vector 1 0 0))) 0]"
  let ?ray = "\<lparr>GetOrigin = light_position example_light,
       GetDirection = Normalize ?G (Vector 1 0 0 - light_position example_light)\<rparr>"
  have v: "valid_intersections ?G ?scene ?ray
             = [example_hit 2 (Vector 2 0 0), example_hit 1 (Vector 1 0 0)]"
    by (simp add: valid_example List.map_filter_simps example_object_def)
  then have ne: "valid_intersections ?G ?scene ?ray \<noteq> []" by simp
  have near: "\<forall>i\<in>set (valid_intersections ?G ?scene ?ray).
      (\<forall>j\<in>set (valid_intersections ?G ?scene ?ray). GetDistance i \<le> GetDistance j) \<longrightarrow>
      Length ?G (Vector 1 0 0 - GetPosition i) \<le> 1 / 1000000"
    unfolding v by (simp add: example_hit_def example_geometry_def minus_Vector_def)
  from IsInShadow_nearest_hit [OF ne] near ne show ?thesis by blast
qed

text \<open>
  Claim C9. In a scene whose two primitive collections are empty the two searches find
  nothing and leave the best intersection in its default state, so \<^verbatim>\<open>IsInShadow\<close>
  reports a point as shadowed exactly when it lies farther than \<open>1e-6\<close> from the
  position of the default-constructed \<^verbatim>\<open>Intersection\<close>: an empty scene shadows every
  such point.
\<close>

theorem IsInShadow_empty_scene:
  assumes "GetObjects scene = []" and "GetSphereObjects scene = []"
  shows "FindVisible G scene
            \<lparr>GetOrigin = light_position light,
             GetDirection = Normalize G (pos - light_position light)\<rparr>
           = (None, None, DefaultIntersection G) \<and>
         IsInShadow G scene light pos
           = (1 / 1000000 < Length G (pos - GetPosition (DefaultIntersection G)))"
  using assms by (simp add: IsInShadow_unfold FindVisible_unfold FindNearestIntersection_def)

theorem IsInShadow_empty_scene_witness:
  "GetObjects (example_scene [] []) = [] \<and> GetSphereObjects (example_scene [] []) = [] \<and>
   IsInShadow (example_geometry None False) (example_scene [] []) example_light (Vector 1 0 0)"
proof -
  have a: "GetObjects (example_scene [] []) = []" 
    and b: "GetSphereObjects (example_scene [] []) = []"
    by (simp_all add: example_scene_def)
  from IsInShadow_empty_scene [OF a b, where G = "example_geometry None False"
      and light = example_light and pos = "Vector 1 0 0"] a b
  show ?thesis
    by (simp add: example_geometry_def minus_Vector_def zero_Vector_def)
qed

section \<open>Properties of the shading evaluator\<close>

lemma bind_outcome_simps:
  "bind_outcome None k = None"
  "bind_outcome (Some (Inl e)) k = Some (Inl e)"
  "bind_outcome (Some (Inr v)) k = k v"
  by (simp_all add: bind_outcome_def)

text \<open>
  Claim C1. The claim says that in shaded mode, when the refraction branch is taken and
  \<^verbatim>\<open>Refract\<close> returns no result, the empty optional is never dereferenced and the
  refraction term is silently zero. The code does otherwise: line 85 calls
  \<^verbatim>\<open>refracted_ray->Normalize()\<close> before line 86 tests the optional, so in exactly
  that situation \<^verbatim>\<open>GetColor\<close> accesses the empty optional, whatever the rest of the
  input is.
\<close>

theorem GetColor_empty_refraction:
  assumes "mode opt = kFull"
      and "0 < idx2 (albedo (material vis_obj))"
      and "Refract G (GetDirection view_ray) (GetNormal vis_intersection)
             (1 / refraction_index (material vis_obj)) = None"
  shows "GetColor rc G scene view_ray opt vis_intersection vis_obj is_inside
           = Some (Inl EmptyOptionalAccess)"
  using assms
  by (simp add: GetColor_def GetColor_refraction_def bind_outcome_simps case_prod_beta)

theorem GetColor_empty_refraction_witness:
  "mode \<lparr>depth = 1, mode = kFull\<rparr> = kFull \<and>
   0 < idx2 (albedo (material (example_object (Some (example_hit 1 0)) (Vector 0 0 1)))) \<and>
   Refract (example_geometry None False) (GetDirection example_ray)
     (GetNormal (example_hit 1 0))
     (1 / refraction_index (material (example_object (Some (example_hit 1 0)) (Vector 0 0 1))))
     = None \<and>
   GetColor (RayCast (example_geometry None False) (example_scene [] [])) 
     (example_geometry None False) (example_scene [] []) example_ray
     \<lparr>depth = 1, mode = kFull\<rparr> (example_hit 1 0)
     (example_object (Some (example_hit 1 0)) (Vector 0 0 1))
     (IsInsideS (example_geometry None False))
    = Some (Inl EmptyOptionalAccess)"
proof -
  let ?obj = "example_object (Some (example_hit 1 0)) (Vector 0 0 1)"
  let ?G = "example_geometry None False :: (Intersection option, Intersection option) Geometry"
  have m: "mode \<lparr>depth = 1, mode = kFull\<rparr> = kFull" by simp
  have a: "0 < idx2 (albedo (material ?obj))" by (simp add: example_object_def)
  have r: "Refract ?G (GetDirection example_ray) (GetNormal (example_hit 1 0))
     (1 / refraction_index (material ?obj)) = None"
    by (simp add: example_geometry_def)
  from GetColor_empty_refraction [OF m a r] m a r show ?thesis by blast
qed

text \<open>
  The same through \<^verbatim>\<open>RayCast\<close>: one refracting sphere in front of the camera, a
  substrate whose \<^verbatim>\<open>Refract\<close> reports total internal reflection, depth 1.
\<close>

theorem RayCast_empty_refraction:
  "RayCast (example_geometry None False)
     (example_scene [] [example_object (Some (example_hit 1 0)) (Vector 0 0 1)]) example_ray
     \<lparr>depth = 1, mode = kFull\<rparr> = Some (Inl EmptyOptionalAccess)"
  by (subst RayCast.simps)
    (simp add: FindVisible_unfold FindNearestIntersection_def FindNearestIntersection_step_def
      example_defs GetColor_def GetColor_refraction_def bind_outcome_simps case_prod_beta
      INT_MIN_def)

text \<open>
  Claim C5. The claim gives the shaded colour as
  \<open>base + albedo[0] (diffuse + specular) + albedo[1] reflected + refracted\<close> with no
  side condition. The code breaks it where the refraction branch meets total internal
  reflection, by the defect of C1: for a material that weighs all three terms, at depth
  1, \<^verbatim>\<open>GetColor\<close> stops in the access to the empty optional and gives no colour,
  while with a substrate whose \<^verbatim>\<open>Refract\<close> answers a direction the same call gives
  the colour of the formula (the nested ray casts, at depth 0, return zero).
\<close>

theorem GetColor_shaded_empty_refraction:
  "GetColor (RayCast (example_geometry None False) glass_scene) (example_geometry None False)
     glass_scene example_ray \<lparr>depth = 1, mode = kFull\<rparr> (example_hit 1 (Vector 0 0 (- 1)))
     (example_object (Some (example_hit 1 (Vector 0 0 (- 1)))) (Vector 1 (1 / 2) (1 / 4)))
     (IsInsideS (example_geometry None False))
    = Some (Inl EmptyOptionalAccess) \<and>
   GetColor (RayCast (example_geometry (Some (Vector 0 0 1)) False) glass_scene)
     (example_geometry (Some (Vector 0 0 1)) False)
     glass_scene example_ray \<lparr>depth = 1, mode = kFull\<rparr> (example_hit 1 (Vector 0 0 (- 1)))
     (example_object (Some (example_hit 1 (Vector 0 0 (- 1)))) (Vector 1 (1 / 2) (1 / 4)))
     (IsInsideS (example_geometry (Some (Vector 0 0 1)) False))
    = Some (Inr (Vector 2 2 1))"
proof
  show "GetColor (RayCast (example_geometry None False) glass_scene) (example_geometry None False)
     glass_scene example_ray \<lparr>depth = 1, mode = kFull\<rparr> (example_hit 1 (Vector 0 0 (- 1)))
     (example_object (Some (example_hit 1 (Vector 0 0 (- 1)))) (Vector 1 (1 / 2) (1 / 4)))
     (IsInsideS (example_geometry None False))
    = Some (Inl EmptyOptionalAccess)"
    by (simp add: GetColor_def GetColor_refraction_def bind_outcome_simps case_prod_beta
        example_object_def example_geometry_def)
next
  let ?obj = "example_object (Some (example_hit 1 (Vector 0 0 (- 1)))) (Vector 1 (1 / 2) (1 / 4))"
  let ?G = "example_geometry (Some (Vector 0 0 1)) False
              :: (Intersection option, Intersection option) Geometry"
  have shadow: "\<not> IsInShadow ?G glass_scene example_light (Vector 0 0 (- 1))"
    by (simp add: IsInShadow_unfold FindVisible_unfold FindNearestIntersection_def
        FindNearestIntersection_step_def example_defs glass_scene_def minus_Vector_def
        zero_Vector_def)
  have light: "foldl (GetColor_light ?G glass_scene example_ray
                 (example_hit 1 (Vector 0 0 (- 1))) ?obj)
           (0, 0) (GetLights glass_scene) = (Vector 1 1 1, Vector 0 0 0)"
    using shadow
    by (simp add: GetColor_light_def Let_def example_defs glass_scene_def minus_Vector_def
        plus_Vector_def uminus_Vector_def zero_Vector_def scaleR_Vector_def times_Vector_def)
  have nested: "RayCast ?G glass_scene r \<lparr>depth = 0, mode = kFull\<rparr> = Some (Inr 0)" for r
    by (simp add: RayCast.simps INT_MIN_def)
  show "GetColor (RayCast ?G glass_scene) ?G glass_scene example_ray \<lparr>depth = 1, mode = kFull\<rparr>
     (example_hit 1 (Vector 0 0 (- 1))) ?obj (IsInsideS ?G) = Some (Inr (Vector 2 2 1))"
    by (simp add: GetColor_def GetColor_refraction_def GetColor_reflection_def Let_def
        bind_outcome_simps case_prod_beta light nested)
      (simp add: example_object_def example_geometry_def plus_Vector_def scaleR_Vector_def
        zero_Vector_def bind_outcome_simps)
qed

text \<open>
  Where the refraction branch does not meet an empty optional and the nested ray casts
  return the colours \<open>f\<close>, the shaded colour is the sum of the base term, the weighted
  light terms, the weighted reflected term and the refracted term: \<open>reflected\<close> is the
  nested result when \<open>albedo[1] > 0\<close> and the ray is not inside and zero otherwise,
  \<open>refracted\<close> is the nested result, scaled by \<open>albedo[2]\<close> when the ray is not inside
  and unscaled when it is inside.
\<close>

lemma GetColor_shaded_formula:
  assumes "mode opt = kFull"
      and "0 < idx2 (albedo (material vis_obj)) \<longrightarrow>
           Refract G (GetDirection view_ray) (GetNormal vis_intersection)
             (1 / refraction_index (material vis_obj)) \<noteq> None"
  shows "\<exists>reflected refracted.
           GetColor (\<lambda>r ro. Some (Inr (f r ro))) G scene view_ray opt vis_intersection vis_obj
               is_inside
             = Some (Inr (intensity (material vis_obj) + ambient_color (material vis_obj)
                 + idx0 (albedo (material vis_obj)) *\<^sub>R
                     (fst (foldl (GetColor_light G scene view_ray vis_intersection vis_obj)
                            (0, 0) (GetLights scene))
                      + snd (foldl (GetColor_light G scene view_ray vis_intersection vis_obj)
                            (0, 0) (GetLights scene)))
                 + idx1 (albedo (material vis_obj)) *\<^sub>R reflected
                 + refracted)) \<and>
           (0 < idx1 (albedo (material vis_obj)) \<and>
            \<not> is_inside vis_obj (GetDirection view_ray) (GetNormal vis_intersection) \<longrightarrow>
              reflected = f \<lparr>GetOrigin = GetPosition vis_intersection
                                + (1 / 100000) *\<^sub>R GetNormal vis_intersection,
                              GetDirection = Normalize G (Reflect G (GetDirection view_ray)
                                (GetNormal vis_intersection))\<rparr>
                            (opt\<lparr>depth := depth opt - 1\<rparr>)) \<and>
           (\<not> (0 < idx1 (albedo (material vis_obj)) \<and>
               \<not> is_inside vis_obj (GetDirection view_ray) (GetNormal vis_intersection)) \<longrightarrow>
              reflected = 0) \<and>
           (0 < idx2 (albedo (material vis_obj)) \<longrightarrow>
              (\<exists>d. Refract G (GetDirection view_ray) (GetNormal vis_intersection)
                      (1 / refraction_index (material vis_obj)) = Some d \<and>
                   refracted =
                     (if is_inside vis_obj (GetDirection view_ray) (GetNormal vis_intersection)
                      then f \<lparr>GetOrigin = GetPosition vis_intersection
                                 + (1 / 100000) *\<^sub>R Normalize G d,
                               GetDirection = Normalize G d\<rparr>
                             (opt\<lparr>depth := depth opt - 1\<rparr>)
                      else idx2 (albedo (material vis_obj)) *\<^sub>R
                           f \<lparr>GetOrigin = GetPosition vis_intersection
                                 + (1 / 100000) *\<^sub>R Normalize G d,
                               GetDirection = Normalize G d\<rparr>
                             (opt\<lparr>depth := depth opt - 1\<rparr>)))) \<and>
           (\<not> 0 < idx2 (albedo (material vis_obj)) \<longrightarrow> refracted = 0)"
proof -
  let ?rc = "\<lambda>r ro. Some (Inr (f r ro)) :: outcome"
  let ?opt = "opt\<lparr>depth := depth opt - 1\<rparr>"
  let ?inside = "is_inside vis_obj (GetDirection view_ray) (GetNormal vis_intersection)"
  let ?refr_ray = "\<lambda>d. \<lparr>GetOrigin = GetPosition vis_intersection
                                 + (1 / 100000) *\<^sub>R Normalize G d,
                             GetDirection = Normalize G d\<rparr>"
  define refracted where "refracted =
     (if 0 < idx2 (albedo (material vis_obj)) then
        (case Refract G (GetDirection view_ray) (GetNormal vis_intersection)
                (1 / refraction_index (material vis_obj)) of
           None \<Rightarrow> 0
         | Some d \<Rightarrow>
             if ?inside then f (?refr_ray d) ?opt
             else idx2 (albedo (material vis_obj)) *\<^sub>R f (?refr_ray d) ?opt)
      else 0)"
  define reflected where "reflected =
     (if 0 < idx1 (albedo (material vis_obj)) \<and> \<not> ?inside
      then f \<lparr>GetOrigin = GetPosition vis_intersection
                 + (1 / 100000) *\<^sub>R GetNormal vis_intersection,
               GetDirection = Normalize G (Reflect G (GetDirection view_ray)
                 (GetNormal vis_intersection))\<rparr> ?opt
      else 0)"
  have refr: "GetColor_refraction ?rc G view_ray ?opt vis_intersection vis_obj ?inside
       = Some (Inr refracted)"
    using assms(2)
    by (auto simp: GetColor_refraction_def Let_def bind_outcome_simps refracted_def
        split: option.splits)
  have refr_on: "0 < idx2 (albedo (material vis_obj)) \<longrightarrow>
              (\<exists>d. Refract G (GetDirection view_ray) (GetNormal vis_intersection)
                      (1 / refraction_index (material vis_obj)) = Some d \<and>
                   refracted =
                     (if ?inside then f (?refr_ray d) ?opt
                      else idx2 (albedo (material vis_obj)) *\<^sub>R f (?refr_ray d) ?opt))"
    using assms(2) by (auto simp: refracted_def)
  have refr_off: "\<not> 0 < idx2 (albedo (material vis_obj)) \<longrightarrow> refracted = 0"
    by (simp add: refracted_def)
  have refl: "GetColor_reflection ?rc G view_ray ?opt vis_intersection vis_obj ?inside
       = Some (Inr reflected)"
    by (simp add: GetColor_reflection_def Let_def reflected_def)
  have refl_on: "0 < idx1 (albedo (material vis_obj)) \<and> \<not> ?inside \<longrightarrow>
              reflected = f \<lparr>GetOrigin = GetPosition vis_intersection
                                + (1 / 100000) *\<^sub>R GetNormal vis_intersection,
                              GetDirection = Normalize G (Reflect G (GetDirection view_ray)
                                (GetNormal vis_intersection))\<rparr> ?opt"
    by (simp add: reflected_def)
  have refl_off: "\<not> (0 < idx1 (albedo (material vis_obj)) \<and> \<not> ?inside) \<longrightarrow> reflected = 0"
    by (simp add: reflected_def)
  have "GetColor ?rc G scene view_ray opt vis_intersection vis_obj is_inside
      = Some (Inr (intensity (material vis_obj) + ambient_color (material vis_obj)
                 + idx0 (albedo (material vis_obj)) *\<^sub>R
                     (fst (foldl (GetColor_light G scene view_ray vis_intersection vis_obj)
                            (0, 0) (GetLights scene))
                      + snd (foldl (GetColor_light G scene view_ray vis_intersection vis_obj)
                            (0, 0) (GetLights scene)))
                 + idx1 (albedo (material vis_obj)) *\<^sub>R reflected
                 + refracted))"
    using assms(1) by (simp add: GetColor_def Let_def case_prod_beta refr refl bind_outcome_simps)
  with refr_on refr_off refl_on refl_off show ?thesis by blast
qed

text \<open>
  Claim C6. In shaded mode, a material with albedo exactly \<open>(1, 0, 0)\<close> gives the
  colour \<open>base + diffuse + specular\<close>: no nested ray cast is consulted (the callee
  \<open>rc\<close> is arbitrary), and the outcome does not change with the refraction index, with
  the callee or with the inside test.
\<close>

theorem GetColor_diffuse_only:
  assumes "mode opt = kFull" and "albedo (material vis_obj) = Vector 1 0 0"
  shows "GetColor rc G scene view_ray opt vis_intersection vis_obj is_inside
           = Some (Inr (intensity (material vis_obj) + ambient_color (material vis_obj)
               + (fst (foldl (GetColor_light G scene view_ray vis_intersection vis_obj) (0, 0)
                         (GetLights scene))
                  + snd (foldl (GetColor_light G scene view_ray vis_intersection vis_obj) (0, 0)
                         (GetLights scene))))) \<and>
         GetColor rc' G scene view_ray opt vis_intersection
             (vis_obj\<lparr>material := (material vis_obj)\<lparr>refraction_index := k\<rparr>\<rparr>) is_inside'
           = GetColor rc G scene view_ray opt vis_intersection vis_obj is_inside"
proof -
  have light: "GetColor_light G scene view_ray vis_intersection
                 (vis_obj\<lparr>material := (material vis_obj)\<lparr>refraction_index := k\<rparr>\<rparr>)
               = GetColor_light G scene view_ray vis_intersection vis_obj"
    by (intro ext) (simp add: GetColor_light_def Let_def)
  show ?thesis
    using assms
    by (simp add: GetColor_def Let_def case_prod_beta GetColor_refraction_def
        GetColor_reflection_def bind_outcome_simps light)
qed

theorem GetColor_diffuse_only_witness:
  "mode \<lparr>depth = 1, mode = kFull\<rparr> = kFull \<and>
   albedo (material (example_object (Some (example_hit 1 (Vector 0 0 (- 1)))) (Vector 1 0 0)))
     = Vector 1 0 0 \<and>
   GetColor (\<lambda>r ro. None) (example_geometry None False)
     (example_scene [] [example_object (Some (example_hit 1 (Vector 0 0 (- 1)))) (Vector 1 0 0)])
     example_ray \<lparr>depth = 1, mode = kFull\<rparr> (example_hit 1 (Vector 0 0 (- 1)))
     (example_object (Some (example_hit 1 (Vector 0 0 (- 1)))) (Vector 1 0 0))
     (IsInsideS (example_geometry None False))
    = Some (Inr (Vector 2 2 1))"
proof -
  let ?obj = "example_object (Some (example_hit 1 (Vector 0 0 (- 1)))) (Vector 1 0 0)"
  let ?G = "example_geometry None False :: (Intersection option, Intersection option) Geometry"
  let ?scene = "example_scene [] [?obj]"
  have m: "mode \<lparr>depth = 1, mode = kFull\<rparr> = kFull" by simp
  have a: "albedo (material ?obj) = Vector 1 0 0" by (simp add: example_object_def)
  have shadow: "\<not> IsInShadow ?G ?scene example_light (Vector 0 0 (- 1))"
    by (simp add: IsInShadow_unfold FindVisible_unfold FindNearestIntersection_def
        FindNearestIntersection_step_def example_defs minus_Vector_def zero_Vector_def)
  have light: "foldl (GetColor_light ?G ?scene example_ray (example_hit 1 (Vector 0 0 (- 1))) ?obj)
           (0, 0) (GetLights ?scene) = (Vector 1 1 1, Vector 0 0 0)"
    using shadow
    by (simp add: GetColor_light_def Let_def example_defs minus_Vector_def plus_Vector_def
        uminus_Vector_def zero_Vector_def scaleR_Vector_def times_Vector_def)
  from GetColor_diffuse_only [OF m a, of "\<lambda>r ro. None" ?G ?scene example_ray
      "example_hit 1 (Vector 0 0 (- 1))" "IsInsideS ?G"] m a light
  show ?thesis
    by (simp add: example_object_def plus_Vector_def)
qed

section \<open>Properties of the ray-cast driver\<close>

text \<open>
  Claim C4. With remaining depth 0, \<^verbatim>\<open>RayCast\<close> returns the zero colour; the outcome
  is the same for every scene, every ray and every geometry substrate, so no search and
  no other query of the scene contributes to it.
\<close>

theorem RayCast_depth_zero:
  assumes "depth opt = 0"
  shows "RayCast G scene view_ray opt = Some (Inr 0) \<and>
         RayCast G' scene' view_ray' opt = RayCast G scene view_ray opt"
  using assms by (simp add: RayCast.simps INT_MIN_def)

theorem RayCast_depth_zero_witness:
  "depth \<lparr>depth = 0, mode = kFull\<rparr> = 0 \<and>
   RayCast (example_geometry None False) mirror_scene example_ray \<lparr>depth = 0, mode = kFull\<rparr>
     = Some (Inr 0)"
  using RayCast_depth_zero [of "\<lparr>depth = 0, mode = kFull\<rparr>" "example_geometry None False"
      mirror_scene example_ray "example_geometry None False" mirror_scene example_ray]
  by simp

text \<open>
  Claim C8. With depth greater than 0, a ray without a valid intersection with any
  primitive of either collection is given exactly the zero colour.
\<close>

theorem RayCast_miss:
  assumes "0 < depth opt" and "valid_intersections G scene view_ray = []"
  shows "RayCast G scene view_ray opt = Some (Inr 0)"
  using assms by (subst RayCast.simps) (simp add: FindVisible_all_miss INT_MIN_def)

theorem RayCast_miss_witness:
  "0 < depth \<lparr>depth = 3, mode = kFull\<rparr> \<and>
   valid_intersections (example_geometry None False)
     (example_scene [example_object None 0] [example_object None 0]) example_ray = [] \<and>
   RayCast (example_geometry None False)
     (example_scene [example_object None 0] [example_object None 0]) example_ray
     \<lparr>depth = 3, mode = kFull\<rparr> = Some (Inr 0)"
proof -
  have d: "0 < depth \<lparr>depth = 3, mode = kFull\<rparr>" by simp
  have v: "valid_intersections (example_geometry None False)
     (example_scene [example_object None 0] [example_object None 0]) example_ray = []"
    by (simp add: valid_example List.map_filter_simps example_object_def)
  from RayCast_miss [OF d v] d v show ?thesis by simp
qed

lemma GetColor_refraction_cong:
  assumes "\<And>r. rc r opt = rc' r opt"
  shows "GetColor_refraction rc G view_ray opt vis_intersection vis_obj inside
       = GetColor_refraction rc' G view_ray opt vis_intersection vis_obj inside"
  unfolding GetColor_refraction_def Let_def by (simp add: assms split: option.split)

lemma GetColor_reflection_cong:
  assumes "\<And>r. rc r opt = rc' r opt"
  shows "GetColor_reflection rc G view_ray opt vis_intersection vis_obj inside
       = GetColor_reflection rc' G view_ray opt vis_intersection vis_obj inside"
  unfolding GetColor_reflection_def Let_def by (simp add: assms)

lemma GetColor_cong_depth:
  assumes "\<And>r ro. depth ro = depth opt - 1 \<Longrightarrow> rc r ro = rc' r ro"
  shows "GetColor rc G scene view_ray opt vis_intersection vis_obj is_inside
       = GetColor rc' G scene view_ray opt vis_intersection vis_obj is_inside"
proof -
  have eq: "rc r (opt\<lparr>depth := depth opt - 1\<rparr>) = rc' r (opt\<lparr>depth := depth opt - 1\<rparr>)" for r
    by (rule assms) simp
  show ?thesis
    unfolding GetColor_def Let_def case_prod_beta
    by (simp add: GetColor_refraction_cong [of rc _ rc', OF eq]
        GetColor_reflection_cong [of rc _ rc', OF eq])
qed

lemma bind_outcome_colour:
  assumes "\<exists>c. m = Some (Inr c)" and "\<And>v. \<exists>c. k v = Some (Inr c)"
  shows "\<exists>c. bind_outcome m k = Some (Inr c)"
  using assms by (auto simp: bind_outcome_simps)

lemma GetColor_refraction_colour:
  assumes "0 < idx2 (albedo (material vis_obj)) \<longrightarrow>
           Refract G (GetDirection view_ray) (GetNormal vis_intersection)
             (1 / refraction_index (material vis_obj)) \<noteq> None"
      and "\<And>r. \<exists>c. rc r opt = Some (Inr c)"
  shows "\<exists>c. GetColor_refraction rc G view_ray opt vis_intersection vis_obj inside
           = Some (Inr c)"
proof (cases "0 < idx2 (albedo (material vis_obj))")
  case False
  then show ?thesis by (simp add: GetColor_refraction_def)
next
  case True
  with assms(1) obtain d where d: "Refract G (GetDirection view_ray) (GetNormal vis_intersection)
             (1 / refraction_index (material vis_obj)) = Some d" by auto
  have "\<exists>c. bind_outcome
          (rc \<lparr>GetOrigin = GetPosition vis_intersection + (1 / 100000) *\<^sub>R Normalize G d,
               GetDirection = Normalize G d\<rparr> opt)
          (\<lambda>refracted. Some (Inr (if \<not> inside
             then idx2 (albedo (material vis_obj)) *\<^sub>R refracted else refracted)))
        = Some (Inr c)"
    by (rule bind_outcome_colour) (simp_all add: assms(2))
  with True d show ?thesis by (simp add: GetColor_refraction_def Let_def)
qed

lemma GetColor_reflection_colour:
  assumes "\<And>r. \<exists>c. rc r opt = Some (Inr c)"
  shows "\<exists>c. GetColor_reflection rc G view_ray opt vis_intersection vis_obj inside
           = Some (Inr c)"
  unfolding GetColor_reflection_def Let_def by (simp add: assms)

lemma GetColor_colour:
  assumes "0 < idx2 (albedo (material vis_obj)) \<longrightarrow>
           Refract G (GetDirection view_ray) (GetNormal vis_intersection)
             (1 / refraction_index (material vis_obj)) \<noteq> None"
      and "\<And>r ro. depth ro = depth opt - 1 \<Longrightarrow> \<exists>c. rc r ro = Some (Inr c)"
  shows "\<exists>c. GetColor rc G scene view_ray opt vis_intersection vis_obj is_inside
           = Some (Inr c)"
proof (cases "mode opt = kDepth \<or> mode opt = kNormal")
  case True
  then show ?thesis by (auto simp: GetColor_def Let_def)
next
  case False
  have ret: "\<exists>c. rc r (opt\<lparr>depth := depth opt - 1\<rparr>) = Some (Inr c)" for r
    by (rule assms(2)) simp
  have "\<exists>c. bind_outcome
          (GetColor_refraction rc G view_ray (opt\<lparr>depth := depth opt - 1\<rparr>) vis_intersection
             vis_obj inside) (\<lambda>refracted. bind_outcome
               (GetColor_reflection rc G view_ray (opt\<lparr>depth := depth opt - 1\<rparr>)
                  vis_intersection vis_obj inside)
               (\<lambda>reflected. Some (Inr (k reflected refracted)))) = Some (Inr c)" for inside k
    by (intro bind_outcome_colour GetColor_refraction_colour GetColor_reflection_colour ret
        assms(1)) simp
  with False show ?thesis
    unfolding GetColor_def Let_def case_prod_beta by simp
qed

lemma FindVisible_winners:
  assumes "FindVisible G scene ray = (triangle, sphere, best)"
  shows "(\<forall>t. triangle = Some t \<longrightarrow> t \<in> set (GetObjects scene)) \<and>
         (\<forall>s. sphere = Some s \<longrightarrow> s \<in> set (GetSphereObjects scene))"
proof -
  let ?first = "FindNearestIntersection (GetIntersectionT G) (GetObjects scene) ray
                  (DefaultIntersection G) False"
  let ?second = "FindNearestIntersection (GetIntersectionS G) (GetSphereObjects scene) ray
                  (snd ?first) (fst ?first \<noteq> None)"
  have tri: "?first = (triangle, snd ?first)" and sec: "?second = (sphere, best)"
    using assms by (auto simp add: FindVisible_unfold)
  show ?thesis
    using FindNearestIntersection_winner [of "GetIntersectionT G" "GetObjects scene" ray
        "DefaultIntersection G" False _ "snd ?first"]
      FindNearestIntersection_winner [of "GetIntersectionS G" "GetSphereObjects scene" ray
        "snd ?first" "fst ?first \<noteq> None" _ best] tri sec
    by auto
qed

lemma RayCast_colour_nat:
  assumes tri: "\<forall>obj\<in>set (GetObjects scene). 0 < idx2 (albedo (material obj)) \<longrightarrow>
                 (\<forall>d n. Refract G d n (1 / refraction_index (material obj)) \<noteq> None)"
      and sph: "\<forall>obj\<in>set (GetSphereObjects scene). 0 < idx2 (albedo (material obj)) \<longrightarrow>
                 (\<forall>d n. Refract G d n (1 / refraction_index (material obj)) \<noteq> None)"
  shows "depth opt = int n \<Longrightarrow> \<exists>c. RayCast G scene view_ray opt = Some (Inr c)"
proof (induction n arbitrary: view_ray opt)
  case 0
  then show ?case by (simp add: RayCast.simps INT_MIN_def)
next
  case (Suc n)
  have rec: "\<exists>c. RayCast G scene r ro = Some (Inr c)" if "depth ro = depth opt - 1" for r ro
    using that Suc.prems by (intro Suc.IH) simp
  have pos: "depth opt \<noteq> 0" "\<not> depth opt < INT_MIN"
    using Suc.prems by (simp_all add: INT_MIN_def)
  obtain triangle sphere best where fv: "FindVisible G scene view_ray = (triangle, sphere, best)"
    by (cases "FindVisible G scene view_ray") auto
  note win = FindVisible_winners [OF fv]
  show ?case
  proof (cases sphere)
    case (Some s)
    with win sph have "0 < idx2 (albedo (material s)) \<longrightarrow>
        Refract G (GetDirection view_ray) (GetNormal best)
          (1 / refraction_index (material s)) \<noteq> None" by auto
    then have "\<exists>c. GetColor (RayCast G scene) G scene view_ray opt best s (IsInsideS G)
        = Some (Inr c)"
      by (rule GetColor_colour) (rule rec)
    with Some fv pos show ?thesis by (subst RayCast.simps) simp
  next
    case None
    show ?thesis
    proof (cases triangle)
      case (Some t)
      with win tri have "0 < idx2 (albedo (material t)) \<longrightarrow>
          Refract G (GetDirection view_ray) (GetNormal (DefineNormal G t best))
            (1 / refraction_index (material t)) \<noteq> None" by auto
      then have "\<exists>c. GetColor (RayCast G scene) G scene view_ray opt (DefineNormal G t best) t
          (IsInsideT G) = Some (Inr c)"
        by (rule GetColor_colour) (rule rec)
      with Some \<open>sphere = None\<close> fv pos show ?thesis by (subst RayCast.simps) simp
    next
      case None
      with \<open>sphere = None\<close> fv pos show ?thesis by (subst RayCast.simps) simp
    qed
  qed
qed

text \<open>
  Claim C3, amended. For every scene, every ray and every non-negative initial depth,
  \<^verbatim>\<open>RayCast\<close> terminates and returns a colour, as long as no refraction meets total
  internal reflection (no primitive with \<open>albedo[2] > 0\<close> for which \<^verbatim>\<open>Refract\<close>
  answers nothing: there the run stops in the access of line 85, the defect of C1). At
  depth 0 it returns the zero colour. \<^verbatim>\<open>GetColor\<close> consults the nested \<^verbatim>\<open>RayCast\<close>
  only with a depth exactly one less than its own: two callees that agree at that depth
  give the same outcome.
\<close>

theorem RayCast_terminates:
  assumes "0 \<le> depth opt"
      and "\<forall>obj\<in>set (GetObjects scene). 0 < idx2 (albedo (material obj)) \<longrightarrow>
             (\<forall>d n. Refract G d n (1 / refraction_index (material obj)) \<noteq> None)"
      and "\<forall>obj\<in>set (GetSphereObjects scene). 0 < idx2 (albedo (material obj)) \<longrightarrow>
             (\<forall>d n. Refract G d n (1 / refraction_index (material obj)) \<noteq> None)"
  shows "(\<exists>colour. RayCast G scene view_ray opt = Some (Inr colour)) \<and>
         (depth opt = 0 \<longrightarrow> RayCast G scene view_ray opt = Some (Inr 0)) \<and>
         (\<forall>rc rc' vis_intersection vis_obj is_inside.
            (\<forall>r ro. depth ro = depth opt - 1 \<longrightarrow> rc r ro = rc' r ro) \<longrightarrow>
            GetColor rc G scene view_ray opt vis_intersection vis_obj is_inside
              = GetColor rc' G scene view_ray opt vis_intersection vis_obj is_inside)"
proof (intro conjI allI impI)
  from assms(1) have "depth opt = int (nat (depth opt))" by simp
  with assms(2,3) show "\<exists>colour. RayCast G scene view_ray opt = Some (Inr colour)"
    by (rule RayCast_colour_nat)
next
  assume "depth opt = 0"
  then show "RayCast G scene view_ray opt = Some (Inr 0)"
    by (simp add: RayCast.simps INT_MIN_def)
next
  fix rc rc' :: "Ray \<Rightarrow> RenderOptions \<Rightarrow> outcome"
  fix vis_intersection and vis_obj :: "'c Object" and is_inside
  assume "\<forall>r ro. depth ro = depth opt - 1 \<longrightarrow> rc r ro = rc' r ro"
  then show "GetColor rc G scene view_ray opt vis_intersection vis_obj is_inside
              = GetColor rc' G scene view_ray opt vis_intersection vis_obj is_inside"
    by (intro GetColor_cong_depth) simp
qed

theorem RayCast_terminates_witness:
  "0 \<le> depth \<lparr>depth = 2, mode = kFull\<rparr> \<and>
   (\<exists>colour. RayCast (example_geometry (Some (Vector 0 0 1)) False) glass_scene example_ray
      \<lparr>depth = 2, mode = kFull\<rparr> = Some (Inr colour))"
proof -
  let ?G = "example_geometry (Some (Vector 0 0 1)) False
              :: (Intersection option, Intersection option) Geometry"
  have d: "0 \<le> depth \<lparr>depth = 2, mode = kFull\<rparr>" by simp
  have t: "\<forall>obj\<in>set (GetObjects glass_scene). 0 < idx2 (albedo (material obj)) \<longrightarrow>
             (\<forall>d n. Refract ?G d n (1 / refraction_index (material obj)) \<noteq> None)"
    by (simp add: glass_scene_def example_scene_def)
  have s: "\<forall>obj\<in>set (GetSphereObjects glass_scene). 0 < idx2 (albedo (material obj)) \<longrightarrow>
             (\<forall>d n. Refract ?G d n (1 / refraction_index (material obj)) \<noteq> None)"
    by (simp add: glass_scene_def example_scene_def example_geometry_def)
  from RayCast_terminates [OF d t s, of example_ray] d show ?thesis by blast
qed

lemma GetColor_reflection_error:
  assumes "mode opt = kFull"
      and "\<not> 0 < idx2 (albedo (material vis_obj))"
      and "0 < idx1 (albedo (material vis_obj))"
      and "\<not> is_inside vis_obj (GetDirection view_ray) (GetNormal vis_intersection)"
      and "rc \<lparr>GetOrigin = GetPosition vis_intersection
                      + (1 / 100000) *\<^sub>R GetNormal vis_intersection,
               GetDirection = Normalize G
                      (Reflect G (GetDirection view_ray) (GetNormal vis_intersection))\<rparr>
              (opt\<lparr>depth := depth opt - 1\<rparr>) = Some (Inl e)"
  shows "GetColor rc G scene view_ray opt vis_intersection vis_obj is_inside = Some (Inl e)"
  using assms
  by (simp add: GetColor_def Let_def case_prod_beta GetColor_refraction_def
      GetColor_reflection_def bind_outcome_simps)

lemma FindVisible_mirror_scene:
  "FindVisible (example_geometry None False) mirror_scene view_ray
     = (None, Some (example_object (Some (example_hit 1 0)) (Vector 0 1 0)), example_hit 1 0)"
  by (simp add: FindVisible_unfold FindNearestIntersection_def FindNearestIntersection_step_def
      mirror_scene_def example_scene_def example_geometry_def example_object_def)

lemma RayCast_mirror_scene_overflow:
  "depth opt = INT_MIN - 1 + int n \<Longrightarrow> depth opt < 0 \<Longrightarrow> mode opt = kFull \<Longrightarrow>
   RayCast (example_geometry None False) mirror_scene view_ray opt = Some (Inl SignedOverflow)"
proof (induction n arbitrary: view_ray opt)
  case 0
  then show ?case by (simp add: RayCast.simps)
next
  case (Suc n)
  let ?G = "example_geometry None False :: (Intersection option, Intersection option) Geometry"
  let ?obj = "example_object (Some (example_hit 1 0)) (Vector 0 1 0)"
  have range: "\<not> depth opt < INT_MIN" "depth opt \<noteq> 0"
    using Suc.prems by simp_all
  have nested: "RayCast ?G mirror_scene r (opt\<lparr>depth := depth opt - 1\<rparr>)
      = Some (Inl SignedOverflow)" for r
    using Suc.prems by (intro Suc.IH) simp_all
  have "GetColor (RayCast ?G mirror_scene) ?G mirror_scene view_ray opt (example_hit 1 0) ?obj
          (IsInsideS ?G) = Some (Inl SignedOverflow)"
    using Suc.prems(3)
    by (intro GetColor_reflection_error nested)
      (simp_all add: example_object_def example_geometry_def)
  with range show ?case
    by (subst RayCast.simps) (simp add: FindVisible_mirror_scene)
qed

text \<open>
  Claim C3 as stated, for every initial depth, fails: the guard is \<^verbatim>\<open>opt.depth == 0\<close>,
  and from depth \<open>-1\<close> the counter only moves away from 0. In front of a mirror, where
  no refraction is attempted, the nested calls go on until the counter is \<open>INT_MIN\<close>
  and its decrement overflows: the run ends in undefined behaviour, not in a colour.
\<close>

theorem RayCast_negative_depth_overflows:
  "RayCast (example_geometry None False) mirror_scene example_ray
     \<lparr>depth = - 1, mode = kFull\<rparr> = Some (Inl SignedOverflow)"
  by (rule RayCast_mirror_scene_overflow [where n = "2 ^ 31"]) (simp_all add: INT_MIN_def)

section \<open>Properties of the calculator\<close>

lemma Evaluate_safe_no_zero:
  "list_all safe_division (nodes e) \<Longrightarrow> Evaluate e \<noteq> Inl DivisionByZero"
  by (induction e) (auto split: sum.splits if_splits)

lemma Evaluate_value_safe:
  "supported e \<Longrightarrow> Evaluate e = Inr v \<Longrightarrow> list_all safe_division (nodes e)"
  by (induction e arbitrary: v) (auto split: sum.splits if_splits)

text \<open>
  Claim C10, amended. The \<^verbatim>\<open>'/'\<close> case divides without a zero check. In a tree built
  from the four operators: if in every division node the right operand evaluates to a
  value other than zero, then evaluation is free of division by zero (that branch is
  unreachable); and if evaluation returns a value, then in every division node the right
  operand evaluates to a value other than zero.
\<close>

theorem Evaluate_division_free:
  assumes "supported e"
  shows "(list_all safe_division (nodes e) \<longrightarrow> Evaluate e \<noteq> Inl DivisionByZero) \<and>
         ((\<exists>v. Evaluate e = Inr v) \<longrightarrow> list_all safe_division (nodes e))"
  using assms Evaluate_safe_no_zero [of e] Evaluate_value_safe [of e] by blast

theorem Evaluate_division_free_witness:
  "supported (Operation CHR ''/'' (Const 7) (Operation CHR ''-'' (Const 3) (Const 1))) \<and>
   list_all safe_division
     (nodes (Operation CHR ''/'' (Const 7) (Operation CHR ''-'' (Const 3) (Const 1)))) \<and>
   Evaluate (Operation CHR ''/'' (Const 7) (Operation CHR ''-'' (Const 3) (Const 1))) = Inr 3 \<and>
   Evaluate (Operation CHR ''/'' (Const 7) (Operation CHR ''-'' (Const 3) (Const 1)))
     \<noteq> Inl DivisionByZero"
proof -
  let ?e = "Operation CHR ''/'' (Const 7) (Operation CHR ''-'' (Const 3) (Const 1))"
  have s: "supported ?e" by simp
  have v: "Evaluate ?e = Inr 3"
    by (simp add: int64_div_def signed_divide_int_def INT64_MIN_def)
  from Evaluate_division_free [OF s] s v show ?thesis by auto
qed

text \<open>
  Claim C10 as stated, an equivalence, fails in one direction: the quotient
  \<open>INT64_MIN / -1\<close> stops the run before the division by the zero on its right is
  reached, so the evaluation is free of division by zero although a division node has a
  right operand that is zero.
\<close>

theorem Evaluate_overflow_before_zero:
  "\<not> ((Evaluate (Operation CHR ''/''
           (Operation CHR ''/'' (Const INT64_MIN) (Const (- 1))) (Const 0))
         \<noteq> Inl DivisionByZero)
       = list_all safe_division
           (nodes (Operation CHR ''/''
              (Operation CHR ''/'' (Const INT64_MIN) (Const (- 1))) (Const 0))))"
  by (simp add: INT64_MIN_def)

end
